theory Spec2Isabelle
  imports Complex_Main "HOL-Library.Sublist"
begin

section \<open>Python values shared by the modules\<close>

text \<open>
  Python \<open>str\<close> values are modelled as \<open>string\<close>. The fixed Vietnamese texts of the
  program are not ASCII and are represented by constructors of small datatypes, one
  per message of the source. An exception is represented by its class (only where a
  handler of the source distinguishes classes) and by \<open>str(e)\<close>. Only exceptions
  deriving from \<open>Exception\<close> are modelled: all handlers of the source are
  \<open>except Exception\<close>.
\<close>

subsection \<open>\<open>str.lower\<close> and the \<open>in\<close> operator on strings\<close>

definition lower_char :: "char \<Rightarrow> char" where
  "lower_char c =
     (let n = (of_char c :: nat) in if 65 \<le> n \<and> n \<le> 90 then char_of (n + 32) else c)"

definition lower :: "string \<Rightarrow> string" where
  "lower s = map lower_char s"

fun str_in :: "string \<Rightarrow> string \<Rightarrow> bool" where
  "str_in kw [] = (kw = [])"
| "str_in kw (c # cs) = (prefix kw (c # cs) \<or> str_in kw cs)"

section \<open>models.py\<close>


datatype DownloadError =
  VIDEO_NOT_FOUND | ACCESS_DENIED | NETWORK_ERROR | FILE_TOO_LARGE | YTDLP_ERROR | UNKNOWN_ERROR

section \<open>error\_handler.py\<close>

definition not_found_keywords :: "string list" where
  "not_found_keywords =
     [''video unavailable'', ''not found'', ''does not exist'', ''has been removed'',
      ''deleted'', ''unavailable'', ''no video'', ''404'']"

definition access_denied_keywords :: "string list" where
  "access_denied_keywords =
     [''private'', ''restricted'', ''age-restricted'', ''age restricted'',
      ''login required'', ''sign in'', ''members only'', ''subscribers only'',
      ''permission denied'', ''access denied'', ''forbidden'', ''403'']"

definition network_keywords :: "string list" where
  "network_keywords =
     [''network'', ''connection'', ''timeout'', ''timed out'', ''unreachable'', ''dns'',
      ''socket'', ''ssl'', ''certificate'', ''connect error'', ''connection refused'',
      ''connection reset'', ''no internet'']"

definition update_keywords :: "string list" where
  "update_keywords =
     [''update'', ''outdated'', ''upgrade'', ''new version'', ''please update'',
      ''yt-dlp needs'', ''extractor error'']"

text \<open>\<open>any(keyword in error_str for keyword in keywords)\<close>\<close>

definition any_keyword_in :: "string list \<Rightarrow> string \<Rightarrow> bool" where
  "any_keyword_in keywords error_str = list_ex (\<lambda>keyword. str_in keyword error_str) keywords"

definition is_video_not_found_error :: "string \<Rightarrow> bool" where
  "is_video_not_found_error error_str = any_keyword_in not_found_keywords error_str"

definition is_access_denied_error :: "string \<Rightarrow> bool" where
  "is_access_denied_error error_str = any_keyword_in access_denied_keywords error_str"

definition is_network_error :: "string \<Rightarrow> bool" where
  "is_network_error error_str = any_keyword_in network_keywords error_str"

definition is_ytdlp_update_error :: "string \<Rightarrow> bool" where
  "is_ytdlp_update_error error_str = any_keyword_in update_keywords error_str"

text \<open>
  \<open>map_ytdlp_error(error)\<close>: the argument of the model is \<open>str(error)\<close>. The call of
  \<open>log_error\<close> writes one record to the logger and has no influence on the value.
\<close>

definition map_ytdlp_error :: "string \<Rightarrow> DownloadError" where
  "map_ytdlp_error error =
     (let error_str = lower error in
      if is_video_not_found_error error_str then VIDEO_NOT_FOUND
      else if is_access_denied_error error_str then ACCESS_DENIED
      else if is_network_error error_str then NETWORK_ERROR
      else if is_ytdlp_update_error error_str then YTDLP_ERROR
      else UNKNOWN_ERROR)"

text \<open>
  The specification's words for the matching: a raw text contains a keyword
  case-insensitively when some contiguous piece of it equals the keyword up to the case
  of its letters; it contains a keyword of a group when this holds for a member.
\<close>

definition spec_contains_ci :: "string \<Rightarrow> string \<Rightarrow> bool" where
  "spec_contains_ci keyword text \<longleftrightarrow>
     (\<exists>pre w post. text = pre @ w @ post \<and> lower w = lower keyword)"

definition spec_has_keyword :: "string list \<Rightarrow> string \<Rightarrow> bool" where
  "spec_has_keyword keywords text \<longleftrightarrow> (\<exists>keyword \<in> set keywords. spec_contains_ci keyword text)"

section \<open>auth.py\<close>

record tg_user =
  user_id :: int

record 'm tg_update =
  effective_user :: "tg_user option"
  message :: 'm

definition is_authorized :: "int \<Rightarrow> int \<Rightarrow> bool" where
  "is_authorized uid owner_id = (uid = owner_id)"

text \<open>
  A handler is a coroutine taking the update and the context; it acts on the world
  \<open>'w\<close> (the chat, the file system) and returns a Python value or \<open>None\<close>. The wrapper
  built by \<open>auth_decorator(owner_id)(func)\<close> is modelled together with the list of
  argument pairs with which it called \<open>func\<close>.
\<close>

type_synonym ('m, 'c, 'w, 'r) handler = "'m tg_update \<Rightarrow> 'c \<Rightarrow> 'w \<Rightarrow> 'r option \<times> 'w"

definition auth_decorator ::
  "int \<Rightarrow> ('m, 'c, 'w, 'r) handler \<Rightarrow> 'm tg_update \<Rightarrow> 'c \<Rightarrow> 'w
     \<Rightarrow> ('r option \<times> 'w) \<times> ('m tg_update \<times> 'c) list" where
  "auth_decorator owner_id func update context w =
     (case effective_user update of
        None \<Rightarrow> ((None, w), [])
      | Some u \<Rightarrow>
          if \<not> is_authorized (user_id u) owner_id then ((None, w), [])
          else (func update context w, [(update, context)]))"

text \<open>A handler used to exercise the wrapper: it replies with the text of the message.\<close>

definition reply_handler :: "(string, unit, string list, string) handler" where
  "reply_handler update context w = (Some ''done'', w @ [message update])"

section \<open>Exceptions, logging, the chat transport and the file system\<close>

text \<open>
  \<open>yt_dlp.utils.DownloadError\<close> is the one exception class a handler of the source
  names; every other exception is an instance of \<open>Exception\<close>. Both carry \<open>str(e)\<close>.
\<close>

datatype py_exception = YtDlpDownloadError (str_of: string) | OtherException (str_of: string)

datatype 'a outcome = Returns 'a | Raises py_exception

text \<open>
  A record written to the logger: its level and, where the message interpolates an
  exception, the text of that exception.
\<close>

datatype log_level = DEBUG | INFO | WARNING | ERROR

type_synonym log_record = "log_level \<times> string option"

text \<open>
  The bot object of the chat library. The program uses four coroutines of it; each
  either returns or raises. \<open>send_message\<close> returns the message, of which the program
  reads \<open>message_id\<close>.
\<close>

record bot =
  send_message :: "int \<Rightarrow> string \<Rightarrow> int outcome"
  edit_message_text :: "int \<Rightarrow> int \<Rightarrow> string \<Rightarrow> unit outcome"
  delete_message :: "int \<Rightarrow> int \<Rightarrow> unit outcome"
  bot_send_video :: "int \<Rightarrow> string \<Rightarrow> unit outcome"

text \<open>
  The file system maps a path to what is there. An entry has a size in bytes and says,
  for each of the three operations of the program that can raise \<open>OSError\<close> on an
  existing path, whether it raises and with which text: \<open>os.path.getsize\<close>,
  \<open>open(path, 'rb')\<close> and \<open>os.remove\<close> (a directory, for instance, can be neither opened
  nor removed). \<open>os.path.exists\<close> never raises.
\<close>

record file_node =
  node_size :: nat
  getsize_error :: "string option"
  open_error :: "string option"
  remove_error :: "string option"

type_synonym filesystem = "string \<Rightarrow> file_node option"

datatype event = Log log_level "string option" | OsRemove string | BotSendVideo int string

record world =
  fs :: filesystem
  trace :: "event list"

definition emit :: "event \<Rightarrow> world \<Rightarrow> world" where
  "emit e w = w\<lparr>trace := trace w @ [e]\<rparr>"

definition os_path_exists :: "world \<Rightarrow> string \<Rightarrow> bool" where
  "os_path_exists w path = (fs w path \<noteq> None)"

definition os_path_getsize :: "world \<Rightarrow> string \<Rightarrow> py_exception + int" where
  "os_path_getsize w path =
     (case fs w path of
        None \<Rightarrow> Inl (OtherException ''No such file or directory'')
      | Some node \<Rightarrow>
          (case getsize_error node of
             Some e \<Rightarrow> Inl (OtherException e)
           | None \<Rightarrow> Inr (int (node_size node))))"

definition os_remove :: "string \<Rightarrow> world \<Rightarrow> py_exception option \<times> world" where
  "os_remove path w =
     (let w1 = emit (OsRemove path) w in
      case fs w1 path of
        None \<Rightarrow> (Some (OtherException ''No such file or directory''), w1)
      | Some node \<Rightarrow>
          (case remove_error node of
             Some e \<Rightarrow> (Some (OtherException e), w1)
           | None \<Rightarrow> (None, w1\<lparr>fs := (fs w1)(path := None)\<rparr>)))"

definition open_rb :: "world \<Rightarrow> string \<Rightarrow> py_exception + unit" where
  "open_rb w path =
     (case fs w path of
        None \<Rightarrow> Inl (OtherException ''No such file or directory'')
      | Some node \<Rightarrow>
          (case open_error node of Some e \<Rightarrow> Inl (OtherException e) | None \<Rightarrow> Inr ()))"

section \<open>Formatting of numbers\<close>

text \<open>
  Decimal digits of a natural number, and \<open>str\<close> of a Python \<open>int\<close>.
\<close>

definition digit_char :: "nat \<Rightarrow> char" where
  "digit_char d = char_of (48 + d)"

fun show_nat :: "nat \<Rightarrow> string" where
  "show_nat n = (if n < 10 then [digit_char n] else show_nat (n div 10) @ [digit_char (n mod 10)])"

declare show_nat.simps [simp del]

definition show_int :: "int \<Rightarrow> string" where
  "show_int i = (if i < 0 then CHR ''-'' # show_nat (nat (- i)) else show_nat (nat i))"

text \<open>
  The format specifications \<open>:.1f\<close> and \<open>:.0f\<close>. Python prints the decimal numeral with
  the requested number of fraction digits nearest to the value of the float, a tie
  going to the even last digit, and a minus sign whenever the value is negative. The
  value formatted in \<open>send_video\<close> is a byte count divided by \<open>1024 * 1024\<close>; this
  division is exact in binary floating point for counts below \<open>2 ^ 53\<close>, and the model
  takes the exact quotient as a rational number.
\<close>

definition round_half_even :: "rat \<Rightarrow> int" where
  "round_half_even x =
     (let f = \<lfloor>x\<rfloor>; d = x - of_int f in
      if d < 1 / 2 then f else if 1 / 2 < d then f + 1 else if even f then f else f + 1)"

definition format_1f :: "rat \<Rightarrow> string" where
  "format_1f x =
     (let n = nat (round_half_even (\<bar>x\<bar> * 10)) in
      (if x < 0 then ''-'' else '''') @ show_nat (n div 10) @ ''.'' @ [digit_char (n mod 10)])"

definition format_0f :: "rat \<Rightarrow> string" where
  "format_0f x =
     (let n = nat (round_half_even \<bar>x\<bar>) in (if x < 0 then ''-'' else '''') @ show_nat n)"

text \<open>Reading a decimal numeral back, to say which number a printed numeral denotes.\<close>

definition digit_value :: "char \<Rightarrow> nat" where
  "digit_value ch = of_char ch - 48"

definition read_nat :: "string \<Rightarrow> nat" where
  "read_nat s = foldl (\<lambda>a ch. 10 * a + digit_value ch) 0 s"

section \<open>sender.py\<close>

text \<open>
  The texts returned by \<open>send_video\<close>, in the order of the source: the file does not
  exist (\<open>MsgFileMissing\<close>); the size of the file cannot be read
  (\<open>MsgSizeUnreadable\<close>); the video is too large, \<open>MsgTooLarge a m\<close>, which reads
  "(\<open>a\<close>MB > \<open>m\<close>MB)" between the fixed opening words and the advice to lower the
  quality or to cut the video, with \<open>a\<close> the value of \<open>size_mb\<close> under \<open>:.1f\<close> and
  \<open>m\<close> the value of \<open>max_mb\<close> under \<open>:.0f\<close>; and the send error, \<open>MsgSendError s\<close>,
  a fixed prefix followed by \<open>s = str(e)\<close>.
\<close>

datatype send_message_text =
  MsgFileMissing | MsgSizeUnreadable | MsgTooLarge string string | MsgSendError string

definition cleanup_file :: "string \<Rightarrow> world \<Rightarrow> bool \<times> world" where
  "cleanup_file file_path w =
     (if os_path_exists w file_path then
        (case os_remove file_path w of
           (None, w1) \<Rightarrow> (True, emit (Log INFO None) w1)
         | (Some e, w1) \<Rightarrow> (False, emit (Log ERROR (Some (str_of e))) w1))
      else (True, emit (Log DEBUG None) w))"

definition get_file_size :: "string \<Rightarrow> world \<Rightarrow> int \<times> world" where
  "get_file_size file_path w =
     (if os_path_exists w file_path then
        (case os_path_getsize w file_path of
           Inr n \<Rightarrow> (n, w)
         | Inl e \<Rightarrow> (- 1, emit (Log ERROR (Some (str_of e))) w))
      else (- 1, w))"

definition is_file_size_valid :: "string \<Rightarrow> int \<Rightarrow> world \<Rightarrow> bool \<times> world" where
  "is_file_size_valid file_path max_size w =
     (let (file_size, w1) = get_file_size file_path w in
      if file_size < 0 then (False, w1) else (file_size \<le> max_size, w1))"

definition DEFAULT_MAX_FILE_SIZE :: int where
  "DEFAULT_MAX_FILE_SIZE = 50 * 1024 * 1024"

text \<open>The body of the \<open>try\<close> statement of \<open>send_video\<close>: it returns a pair or raises.\<close>

definition send_video_try ::
  "bot \<Rightarrow> int \<Rightarrow> string \<Rightarrow> int \<Rightarrow> world
     \<Rightarrow> (py_exception + bool \<times> send_message_text option) \<times> world" where
  "send_video_try b chat_id file_path max_size w =
     (if \<not> os_path_exists w file_path then
        (Inr (False, Some MsgFileMissing), emit (Log ERROR None) w)
      else
        let (file_size, w1) = get_file_size file_path w in
        if file_size < 0 then (Inr (False, Some MsgSizeUnreadable), emit (Log ERROR None) w1)
        else if file_size > max_size then
          let size_mb = (of_int file_size :: rat) / (1024 * 1024);
              max_mb = (of_int max_size :: rat) / (1024 * 1024);
              error_msg = MsgTooLarge (format_1f size_mb) (format_0f max_mb)
          in (Inr (False, Some error_msg), emit (Log WARNING None) w1)
        else
          let w2 = emit (Log INFO None) w1 in
          (case open_rb w2 file_path of
             Inl e \<Rightarrow> (Inl e, w2)
           | Inr _ \<Rightarrow>
               let w3 = emit (BotSendVideo chat_id file_path) w2 in
               (case bot_send_video b chat_id file_path of
                  Raises e \<Rightarrow> (Inl e, w3)
                | Returns _ \<Rightarrow> (Inr (True, None), emit (Log INFO None) w3))))"

text \<open>
  \<open>send_video\<close>: the \<open>try\<close> body, the handler \<open>except Exception as e\<close>, and the
  \<open>finally\<close> clause, which runs \<open>cleanup_file\<close> on every path and drops its value.
\<close>

definition send_video ::
  "bot \<Rightarrow> int \<Rightarrow> string \<Rightarrow> int \<Rightarrow> world
     \<Rightarrow> (py_exception + bool \<times> send_message_text option) \<times> world" where
  "send_video b chat_id file_path max_size w =
     (let (r, w1) = send_video_try b chat_id file_path max_size w;
          (r1, w2) =
            (case r of
               Inl e \<Rightarrow>
                 (Inr (False, Some (MsgSendError (str_of e))),
                  emit (Log ERROR (Some (str_of e))) w1)
             | Inr v \<Rightarrow> (Inr v, w1));
          (removed, w3) = cleanup_file file_path w2
      in (r1, w3))"

section \<open>progress.py\<close>

text \<open>
  The three operations of \<open>ProgressManager\<close> on the status message. Each returns its
  value, or the exception it lets through, and the records it logged.
\<close>

definition send_progress :: "bot \<Rightarrow> int \<Rightarrow> string \<Rightarrow> (py_exception + int) \<times> log_record list" where
  "send_progress b chat_id text =
     (case send_message b chat_id text of
        Raises e \<Rightarrow> (Inl e, [(DEBUG, None)])
      | Returns message_id \<Rightarrow> (Inr message_id, [(DEBUG, None), (INFO, None)]))"

definition update_progress ::
  "bot \<Rightarrow> int \<Rightarrow> int \<Rightarrow> string \<Rightarrow> (py_exception + bool) \<times> log_record list" where
  "update_progress b chat_id message_id text =
     (case edit_message_text b chat_id message_id text of
        Returns _ \<Rightarrow> (Inr True, [(DEBUG, None), (INFO, None)])
      | Raises e \<Rightarrow> (Inr False, [(DEBUG, None), (WARNING, Some (str_of e))]))"

definition delete_progress :: "bot \<Rightarrow> int \<Rightarrow> int \<Rightarrow> (py_exception + bool) \<times> log_record list" where
  "delete_progress b chat_id message_id =
     (case delete_message b chat_id message_id of
        Returns _ \<Rightarrow> (Inr True, [(DEBUG, None), (INFO, None)])
      | Raises e \<Rightarrow> (Inr False, [(DEBUG, None), (WARNING, Some (str_of e))]))"


text \<open>Bots and a file used to exercise the operations.\<close>

definition refusing_bot :: bot where
  "refusing_bot =
     \<lparr>send_message = (\<lambda>chat_id text. Raises (OtherException ''Forbidden'')),
      edit_message_text = (\<lambda>chat_id message_id text. Raises (OtherException ''Message to edit not found'')),
      delete_message = (\<lambda>chat_id message_id. Raises (OtherException ''Message to delete not found'')),
      bot_send_video = (\<lambda>chat_id path. Raises (OtherException ''Timed out''))\<rparr>"

definition accepting_bot :: bot where
  "accepting_bot =
     \<lparr>send_message = (\<lambda>chat_id text. Returns 42),
      edit_message_text = (\<lambda>chat_id message_id text. Returns ()),
      delete_message = (\<lambda>chat_id message_id. Returns ()),
      bot_send_video = (\<lambda>chat_id path. Returns ())\<rparr>"

definition plain_file :: "nat \<Rightarrow> file_node" where
  "plain_file n = \<lparr>node_size = n, getsize_error = None, open_error = None, remove_error = None\<rparr>"

definition one_file :: "string \<Rightarrow> file_node \<Rightarrow> world" where
  "one_file path node = \<lparr>fs = (\<lambda>p. if p = path then Some node else None), trace = []\<rparr>"

definition locked_file :: "nat \<Rightarrow> file_node" where
  "locked_file n =
     \<lparr>node_size = n, getsize_error = None, open_error = None,
      remove_error = Some ''Permission denied''\<rparr>"

section \<open>downloader.py\<close>

text \<open>
  A progress event of the extraction engine is a dictionary from keys to Python values.
  The values the hook looks at are numbers, strings and \<open>None\<close>; numbers are taken as
  rationals, so that the true division of the source is exact.
\<close>

datatype py_value = PyNone | PyNum rat | PyStr string

type_synonym progress_dict = "string \<Rightarrow> py_value option"

text \<open>\<open>d.get(key, default)\<close>, truth of a value, and \<open>a or b\<close>.\<close>

definition dict_get :: "progress_dict \<Rightarrow> string \<Rightarrow> py_value \<Rightarrow> py_value" where
  "dict_get d key dflt = (case d key of None \<Rightarrow> dflt | Some v \<Rightarrow> v)"

fun truthy :: "py_value \<Rightarrow> bool" where
  "truthy PyNone = False"
| "truthy (PyNum x) = (x \<noteq> 0)"
| "truthy (PyStr s) = (s \<noteq> [])"

definition py_or :: "py_value \<Rightarrow> py_value \<Rightarrow> py_value" where
  "py_or a b = (if truthy a then a else b)"

text \<open>
  \<open>v > 0\<close> and \<open>a / b\<close> raise \<open>TypeError\<close> unless the operands are numbers, and the
  division raises \<open>ZeroDivisionError\<close> on a zero divisor.
\<close>

fun py_gt_zero :: "py_value \<Rightarrow> py_exception + bool" where
  "py_gt_zero (PyNum x) = Inr (0 < x)"
| "py_gt_zero v = Inl (OtherException ''TypeError'')"

fun py_truediv :: "py_value \<Rightarrow> py_value \<Rightarrow> py_exception + rat" where
  "py_truediv (PyNum x) (PyNum y) =
     (if y = 0 then Inl (OtherException ''ZeroDivisionError'') else Inr (x / y))"
| "py_truediv a b = Inl (OtherException ''TypeError'')"

text \<open>
  \<open>_handle_progress(progress_dict, callback)\<close>. The callback is known by its presence
  only; the value is the list of the arguments with which the callback was called, or
  the exception raised before any call.
\<close>

definition handle_progress :: "progress_dict \<Rightarrow> 'cb option \<Rightarrow> py_exception + rat list" where
  "handle_progress progress_dict callback =
     (case callback of
        None \<Rightarrow> Inr []
      | Some cb \<Rightarrow>
          let status = dict_get progress_dict ''status'' (PyStr '''') in
          if status = PyStr ''downloading'' then
            let downloaded = dict_get progress_dict ''downloaded_bytes'' (PyNum 0);
                total = py_or (py_or (dict_get progress_dict ''total_bytes'' PyNone)
                                     (dict_get progress_dict ''total_bytes_estimate'' PyNone))
                              (PyNum 0)
            in
            (case py_gt_zero total of
               Inl e \<Rightarrow> Inl e
             | Inr True \<Rightarrow>
                 (case py_truediv downloaded total of
                    Inl e \<Rightarrow> Inl e
                  | Inr q \<Rightarrow> let percentage = q * 100 in Inr [min percentage 99])
             | Inr False \<Rightarrow>
                 let fragment_index = dict_get progress_dict ''fragment_index'' (PyNum 0);
                     fragment_count = dict_get progress_dict ''fragment_count'' (PyNum 0)
                 in
                 (case py_gt_zero fragment_count of
                    Inl e \<Rightarrow> Inl e
                  | Inr True \<Rightarrow>
                      (case py_truediv fragment_index fragment_count of
                         Inl e \<Rightarrow> Inl e
                       | Inr q \<Rightarrow> let percentage = q * 100 in Inr [min percentage 99])
                  | Inr False \<Rightarrow> Inr []))
          else if status = PyStr ''finished'' then Inr [100]
          else Inr [])"

text \<open>The options built for the engine; \<open>progress_hooks\<close> is \<open>None\<close> when the key is not set.\<close>

record ydl_opts =
  format :: string
  outtmpl :: string
  quiet :: bool
  no_warnings :: bool
  merge_output_format :: string
  progress_hooks :: "(progress_dict \<Rightarrow> py_exception + rat list) list option"

definition get_yt_dlp_options :: "string \<Rightarrow> int \<Rightarrow> 'cb option \<Rightarrow> ydl_opts" where
  "get_yt_dlp_options output_path max_size progress_callback =
     (let format_string =
            ''best[filesize<'' @ show_int max_size @ '']/bestvideo[filesize<'' @ show_int max_size
            @ '']+bestaudio/best''
      in \<lparr>format = format_string,
          outtmpl = output_path,
          quiet = True,
          no_warnings = True,
          merge_output_format = ''mp4'',
          progress_hooks =
            (case progress_callback of
               None \<Rightarrow> None
             | Some cb \<Rightarrow> Some [\<lambda>d. handle_progress d progress_callback])\<rparr>)"

text \<open>
  The extraction engine, \<open>YoutubeDL(ydl_opts).download([url])\<close>, is not part of the
  program: it is any function that, from the options, the URL and the world, changes the
  world and returns or raises.
\<close>

type_synonym engine = "ydl_opts \<Rightarrow> string \<Rightarrow> world \<Rightarrow> py_exception option \<times> world"

text \<open>\<open>os.path.join\<close> of two components on POSIX, and \<open>s.rsplit('.', 1)[0]\<close>.\<close>

definition os_path_join :: "string \<Rightarrow> string \<Rightarrow> string" where
  "os_path_join a b =
     (if prefix ''/'' b then b
      else if a = [] \<or> last a = CHR ''/'' then a @ b
      else a @ ''/'' @ b)"

definition rsplit_dot_head :: "string \<Rightarrow> string" where
  "rsplit_dot_head s =
     (let r = dropWhile (\<lambda>c. c \<noteq> CHR ''.'') (rev s) in if r = [] then s else rev (tl r))"

text \<open>
  The error description of a failed download: the fixed text saying that no file was
  created after the download, or the text of the exception caught.
\<close>

datatype download_message = MsgFileNotCreated | MsgText string

record DownloadResult =
  success :: bool
  file_path :: "string option"
  error_message :: "download_message option"
  file_size :: int

text \<open>
  The loop over the alternative extensions: \<open>None\<close> when the loop ends without a
  \<open>return\<close>, otherwise what the \<open>return\<close> gives or what \<open>os.path.getsize\<close> raises.
\<close>

fun probe_extensions :: "world \<Rightarrow> string \<Rightarrow> string list \<Rightarrow> (py_exception + DownloadResult) option" where
  "probe_extensions w base_path [] = None"
| "probe_extensions w base_path (ext # exts) =
     (let alt_path = base_path @ ext in
      if os_path_exists w alt_path then
        (case os_path_getsize w alt_path of
           Inl e \<Rightarrow> Some (Inl e)
         | Inr n \<Rightarrow>
             Some (Inr \<lparr>success = True, file_path = Some alt_path, error_message = None,
                        file_size = n\<rparr>))
      else probe_extensions w base_path exts)"

text \<open>The body of the \<open>try\<close> statement of \<open>download_video\<close>.\<close>

definition download_video_try ::
  "engine \<Rightarrow> ydl_opts \<Rightarrow> string \<Rightarrow> string \<Rightarrow> world \<Rightarrow> (py_exception + DownloadResult) \<times> world" where
  "download_video_try ydl opts url output_path w =
     (case ydl opts url w of
        (Some e, w1) \<Rightarrow> (Inl e, w1)
      | (None, w1) \<Rightarrow>
          if os_path_exists w1 output_path then
            (case os_path_getsize w1 output_path of
               Inl e \<Rightarrow> (Inl e, w1)
             | Inr n \<Rightarrow>
                 (Inr \<lparr>success = True, file_path = Some output_path, error_message = None,
                       file_size = n\<rparr>, w1))
          else
            let base_path = rsplit_dot_head output_path in
            (case probe_extensions w1 base_path [''.mp4'', ''.mkv'', ''.webm'', ''.m4a''] of
               Some r \<Rightarrow> (r, w1)
             | None \<Rightarrow>
                 (Inr \<lparr>success = False, file_path = None,
                       error_message = Some MsgFileNotCreated, file_size = 0\<rparr>, w1)))"

text \<open>
  \<open>download_video\<close>. The fresh identifier \<open>str(uuid.uuid4())\<close> is an argument of the
  model. The two handlers, for \<open>yt_dlp.utils.DownloadError\<close> and for \<open>Exception\<close>, are
  kept apart as in the source.
\<close>

definition download_video ::
  "engine \<Rightarrow> string \<Rightarrow> string \<Rightarrow> string \<Rightarrow> int \<Rightarrow> 'cb option \<Rightarrow> world
     \<Rightarrow> (py_exception + DownloadResult) \<times> world" where
  "download_video ydl uuid4 url output_dir max_size progress_callback w =
     (let unique_filename = uuid4 @ ''.mp4'';
          output_path = os_path_join output_dir unique_filename;
          opts = get_yt_dlp_options output_path max_size progress_callback
      in case download_video_try ydl opts url output_path w of
           (Inr r, w1) \<Rightarrow> (Inr r, w1)
         | (Inl (YtDlpDownloadError s), w1) \<Rightarrow>
             (Inr \<lparr>success = False, file_path = None,
                   error_message = Some (MsgText (str_of (YtDlpDownloadError s))), file_size = 0\<rparr>, w1)
         | (Inl (OtherException s), w1) \<Rightarrow>
             (Inr \<lparr>success = False, file_path = None,
                   error_message = Some (MsgText (str_of (OtherException s))), file_size = 0\<rparr>, w1))"

text \<open>Engines and events used to exercise the downloader.\<close>

definition raising_engine :: "py_exception \<Rightarrow> engine" where
  "raising_engine e opts url w = (Some e, w)"

definition writing_engine :: "nat \<Rightarrow> engine" where
  "writing_engine n opts url w = (None, w\<lparr>fs := (fs w)(outtmpl opts \<mapsto> plain_file n)\<rparr>)"

definition idle_engine :: engine where
  "idle_engine opts url w = (None, w)"

definition empty_world :: world where
  "empty_world = \<lparr>fs = (\<lambda>p. None), trace = []\<rparr>"


section \<open>url\_parser.py\<close>




















section \<open>Properties of the error classifier\<close>

lemma str_in_sublist: "str_in kw s \<longleftrightarrow> sublist kw s"
  by (induction s) (auto simp: sublist_Cons_right)

lemma lower_append: "lower (xs @ ys) = lower xs @ lower ys"
  by (simp add: lower_def)

lemma spec_contains_ci_iff: "spec_contains_ci kw t \<longleftrightarrow> str_in (lower kw) (lower t)"
proof
  assume "spec_contains_ci kw t"
  then obtain pre w post where "t = pre @ w @ post" "lower w = lower kw"
    unfolding spec_contains_ci_def by blast
  then have "lower t = lower pre @ lower kw @ lower post"
    by (simp add: lower_append)
  then show "str_in (lower kw) (lower t)"
    by (simp add: str_in_sublist)
next
  assume "str_in (lower kw) (lower t)"
  then obtain ps ss where "map lower_char t = ps @ lower kw @ ss"
    unfolding str_in_sublist sublist_def lower_def by blast
  then obtain pre r where r: "t = pre @ r" "map lower_char r = lower kw @ ss"
    by (metis map_eq_append_conv)
  then obtain w post where "r = w @ post" "map lower_char w = lower kw"
    by (metis map_eq_append_conv)
  with r show "spec_contains_ci kw t"
    unfolding spec_contains_ci_def lower_def by blast
qed

lemma keywords_lower:
  "\<forall>kw \<in> set not_found_keywords. lower kw = kw"
  "\<forall>kw \<in> set access_denied_keywords. lower kw = kw"
  "\<forall>kw \<in> set network_keywords. lower kw = kw"
  "\<forall>kw \<in> set update_keywords. lower kw = kw"
  by (simp_all add: not_found_keywords_def access_denied_keywords_def network_keywords_def
      update_keywords_def lower_def lower_char_def)

lemma spec_has_keyword_iff:
  assumes "\<forall>kw \<in> set kws. lower kw = kw"
  shows "spec_has_keyword kws t \<longleftrightarrow> any_keyword_in kws (lower t)"
  using assms by (auto simp: spec_has_keyword_def any_keyword_in_def list_ex_iff spec_contains_ci_iff)

lemma map_ytdlp_error_spec:
  "map_ytdlp_error t =
     (if spec_has_keyword not_found_keywords t then VIDEO_NOT_FOUND
      else if spec_has_keyword access_denied_keywords t then ACCESS_DENIED
      else if spec_has_keyword network_keywords t then NETWORK_ERROR
      else if spec_has_keyword update_keywords t then YTDLP_ERROR
      else UNKNOWN_ERROR)"
  by (simp add: map_ytdlp_error_def Let_def spec_has_keyword_iff keywords_lower
      is_video_not_found_error_def is_access_denied_error_def is_network_error_def
      is_ytdlp_update_error_def)

text \<open>
  Claim C7, as amended. The classifier matches case-insensitively against the four
  keyword groups in the order not-found, access-denied, network, update, and the first
  group with a keyword in the text decides: a text with a not-found keyword and a
  network keyword is \<open>VIDEO_NOT_FOUND\<close>; a text with an access-denied keyword and an
  update keyword, and no not-found keyword, is \<open>ACCESS_DENIED\<close>; a text with no keyword of
  any group is \<open>UNKNOWN_ERROR\<close>.
\<close>

theorem map_ytdlp_error_first_group_wins:
  "map_ytdlp_error t =
     (if spec_has_keyword not_found_keywords t then VIDEO_NOT_FOUND
      else if spec_has_keyword access_denied_keywords t then ACCESS_DENIED
      else if spec_has_keyword network_keywords t then NETWORK_ERROR
      else if spec_has_keyword update_keywords t then YTDLP_ERROR
      else UNKNOWN_ERROR)
   \<and> (spec_has_keyword not_found_keywords t \<and> spec_has_keyword network_keywords t
        \<longrightarrow> map_ytdlp_error t = VIDEO_NOT_FOUND)
   \<and> (spec_has_keyword access_denied_keywords t \<and> spec_has_keyword update_keywords t
        \<and> \<not> spec_has_keyword not_found_keywords t
        \<longrightarrow> map_ytdlp_error t = ACCESS_DENIED)
   \<and> (\<not> spec_has_keyword not_found_keywords t \<and> \<not> spec_has_keyword access_denied_keywords t
        \<and> \<not> spec_has_keyword network_keywords t \<and> \<not> spec_has_keyword update_keywords t
        \<longrightarrow> map_ytdlp_error t = UNKNOWN_ERROR)"
  by (simp add: map_ytdlp_error_spec)

theorem map_ytdlp_error_first_group_wins_witness:
  "spec_has_keyword not_found_keywords ''Video unavailable due to Network issues''
   \<and> spec_has_keyword network_keywords ''Video unavailable due to Network issues''
   \<and> map_ytdlp_error ''Video unavailable due to Network issues'' = VIDEO_NOT_FOUND
   \<and> spec_has_keyword access_denied_keywords ''Private video, please update your subscription''
   \<and> spec_has_keyword update_keywords ''Private video, please update your subscription''
   \<and> \<not> spec_has_keyword not_found_keywords ''Private video, please update your subscription''
   \<and> map_ytdlp_error ''Private video, please update your subscription'' = ACCESS_DENIED
   \<and> \<not> spec_has_keyword not_found_keywords ''Some random error''
   \<and> \<not> spec_has_keyword access_denied_keywords ''Some random error''
   \<and> \<not> spec_has_keyword network_keywords ''Some random error''
   \<and> \<not> spec_has_keyword update_keywords ''Some random error''
   \<and> map_ytdlp_error ''Some random error'' = UNKNOWN_ERROR"
proof -
  have a: "spec_has_keyword not_found_keywords ''Video unavailable due to Network issues''"
    unfolding spec_has_keyword_iff [OF keywords_lower(1)] by code_simp
  have b: "spec_has_keyword network_keywords ''Video unavailable due to Network issues''"
    unfolding spec_has_keyword_iff [OF keywords_lower(3)] by code_simp
  have c: "spec_has_keyword access_denied_keywords ''Private video, please update your subscription''"
    unfolding spec_has_keyword_iff [OF keywords_lower(2)] by code_simp
  have d: "spec_has_keyword update_keywords ''Private video, please update your subscription''"
    unfolding spec_has_keyword_iff [OF keywords_lower(4)] by code_simp
  have e: "\<not> spec_has_keyword not_found_keywords ''Private video, please update your subscription''"
    unfolding spec_has_keyword_iff [OF keywords_lower(1)] by code_simp
  have f: "\<not> spec_has_keyword not_found_keywords ''Some random error''"
    unfolding spec_has_keyword_iff [OF keywords_lower(1)] by code_simp
  have g: "\<not> spec_has_keyword access_denied_keywords ''Some random error''"
    unfolding spec_has_keyword_iff [OF keywords_lower(2)] by code_simp
  have h: "\<not> spec_has_keyword network_keywords ''Some random error''"
    unfolding spec_has_keyword_iff [OF keywords_lower(3)] by code_simp
  have i: "\<not> spec_has_keyword update_keywords ''Some random error''"
    unfolding spec_has_keyword_iff [OF keywords_lower(4)] by code_simp
  show ?thesis
    using a b c d e f g h i
      map_ytdlp_error_first_group_wins [of "''Video unavailable due to Network issues''"]
      map_ytdlp_error_first_group_wins [of "''Private video, please update your subscription''"]
      map_ytdlp_error_first_group_wins [of "''Some random error''"]
    by blast
qed

text \<open>
  Without the exclusion of the not-found group the second part of C7 fails: the text
  below has the access-denied keyword \<open>private\<close> and the update keyword \<open>update\<close>, and
  the not-found keyword \<open>404\<close> wins.
\<close>

theorem access_denied_with_update_counterexample:
  "is_access_denied_error (lower ''Private video, 404, please update'')
   \<and> is_ytdlp_update_error (lower ''Private video, 404, please update'')
   \<and> map_ytdlp_error ''Private video, 404, please update'' = VIDEO_NOT_FOUND"
  by code_simp

text \<open>
  Claim C8, as amended. The keyword group of \<open>YTDLP_ERROR\<close> (the specification's
  EXTRACTOR_OUTDATED) is \<open>update\<close>, \<open>outdated\<close>, \<open>upgrade\<close>, \<open>new version\<close>,
  \<open>please update\<close>, \<open>yt-dlp needs\<close>, \<open>extractor error\<close>; every text that contains
  \<open>yt-dlp needs\<close> and no keyword of a group of higher priority is classified
  \<open>YTDLP_ERROR\<close>.
\<close>

theorem update_keywords_yt_dlp_needs:
  "update_keywords =
     [''update'', ''outdated'', ''upgrade'', ''new version'', ''please update'',
      ''yt-dlp needs'', ''extractor error'']
   \<and> (spec_contains_ci ''yt-dlp needs'' t
        \<and> \<not> spec_has_keyword not_found_keywords t \<and> \<not> spec_has_keyword access_denied_keywords t
        \<and> \<not> spec_has_keyword network_keywords t
        \<longrightarrow> map_ytdlp_error t = YTDLP_ERROR)"
proof -
  have "spec_has_keyword update_keywords t" if "spec_contains_ci ''yt-dlp needs'' t"
    using that unfolding spec_has_keyword_def update_keywords_def by simp
  then show ?thesis
    by (auto simp: map_ytdlp_error_spec) (simp add: update_keywords_def)
qed

theorem update_keywords_yt_dlp_needs_witness:
  "spec_contains_ci ''yt-dlp needs'' ''ERROR: yt-dlp needs a fix''
   \<and> \<not> spec_has_keyword not_found_keywords ''ERROR: yt-dlp needs a fix''
   \<and> \<not> spec_has_keyword access_denied_keywords ''ERROR: yt-dlp needs a fix''
   \<and> \<not> spec_has_keyword network_keywords ''ERROR: yt-dlp needs a fix''
   \<and> map_ytdlp_error ''ERROR: yt-dlp needs a fix'' = YTDLP_ERROR"
proof -
  have a: "spec_contains_ci ''yt-dlp needs'' ''ERROR: yt-dlp needs a fix''"
    unfolding spec_contains_ci_iff by code_simp
  have f: "\<not> spec_has_keyword not_found_keywords ''ERROR: yt-dlp needs a fix''"
    unfolding spec_has_keyword_iff [OF keywords_lower(1)] by code_simp
  have g: "\<not> spec_has_keyword access_denied_keywords ''ERROR: yt-dlp needs a fix''"
    unfolding spec_has_keyword_iff [OF keywords_lower(2)] by code_simp
  have h: "\<not> spec_has_keyword network_keywords ''ERROR: yt-dlp needs a fix''"
    unfolding spec_has_keyword_iff [OF keywords_lower(3)] by code_simp
  show ?thesis
    using a f g h update_keywords_yt_dlp_needs [of "''ERROR: yt-dlp needs a fix''"] by blast
qed

text \<open>
  The source has no keyword \<open>extractor needs\<close>: a text with that substring and no other
  keyword is \<open>UNKNOWN_ERROR\<close>.
\<close>

theorem extractor_needs_counterexample:
  "str_in ''extractor needs'' (lower ''Extractor needs fixing'')
   \<and> \<not> is_video_not_found_error (lower ''Extractor needs fixing'')
   \<and> \<not> is_access_denied_error (lower ''Extractor needs fixing'')
   \<and> \<not> is_network_error (lower ''Extractor needs fixing'')
   \<and> map_ytdlp_error ''Extractor needs fixing'' = UNKNOWN_ERROR"
  by code_simp

section \<open>Properties of the authorization wrapper\<close>

text \<open>
  Claim C10. If the update has no effective user, or the id of its effective user
  differs from the owner id, the wrapper returns \<open>None\<close>, leaves the world as it is and
  does not call the inner handler; if the id equals the owner id it calls the handler
  once, with the update and the context, and returns what the handler returns. The
  handler is called exactly when the id equals the owner id.
\<close>

theorem auth_decorator_gate:
  "(effective_user update = None \<or> (\<exists>u. effective_user update = Some u \<and> user_id u \<noteq> owner_id)
      \<longrightarrow> auth_decorator owner_id func update context w = ((None, w), []))
   \<and> ((\<exists>u. effective_user update = Some u \<and> user_id u = owner_id)
      \<longrightarrow> auth_decorator owner_id func update context w
            = (func update context w, [(update, context)]))
   \<and> (length (snd (auth_decorator owner_id func update context w)) = 1
        \<longleftrightarrow> (\<exists>u. effective_user update = Some u \<and> user_id u = owner_id))
   \<and> length (snd (auth_decorator owner_id func update context w)) \<le> 1"
  by (auto simp: auth_decorator_def is_authorized_def split: option.splits)

theorem auth_decorator_gate_witness:
  "auth_decorator 42 reply_handler \<lparr>effective_user = None, message = ''hi''\<rparr> () [] = ((None, []), [])
   \<and> auth_decorator 42 reply_handler \<lparr>effective_user = Some \<lparr>user_id = 7\<rparr>, message = ''hi''\<rparr> () []
       = ((None, []), [])
   \<and> auth_decorator 42 reply_handler \<lparr>effective_user = Some \<lparr>user_id = 42\<rparr>, message = ''hi''\<rparr> () []
       = ((Some ''done'', [''hi'']),
          [(\<lparr>effective_user = Some \<lparr>user_id = 42\<rparr>, message = ''hi''\<rparr>, ())])"
  using auth_decorator_gate [of "\<lparr>effective_user = None, message = ''hi''\<rparr>" 42 reply_handler "()" "[]"]
    auth_decorator_gate [of "\<lparr>effective_user = Some \<lparr>user_id = 7\<rparr>, message = ''hi''\<rparr>" 42 reply_handler "()" "[]"]
    auth_decorator_gate [of "\<lparr>effective_user = Some \<lparr>user_id = 42\<rparr>, message = ''hi''\<rparr>" 42 reply_handler "()" "[]"]
  by (simp add: reply_handler_def)

section \<open>Properties of the progress reporter\<close>

text \<open>
  Claim C9, as amended. A failure of editing the text of the status message, or of
  deleting it, is caught inside the progress reporter, logged as a warning and reported
  to the caller as \<open>False\<close>; neither operation lets an exception through. Sending a new
  status message is not guarded: when the transport raises, \<open>send_progress\<close> raises the
  same exception to its caller, and otherwise it returns the message id.
\<close>

theorem status_message_failures:
  "(edit_message_text b chat_id message_id text = Raises e
      \<longrightarrow> update_progress b chat_id message_id text
            = (Inr False, [(DEBUG, None), (WARNING, Some (str_of e))]))
   \<and> (\<exists>ok. fst (update_progress b chat_id message_id text) = Inr ok)
   \<and> (delete_message b chat_id message_id = Raises e
      \<longrightarrow> delete_progress b chat_id message_id
            = (Inr False, [(DEBUG, None), (WARNING, Some (str_of e))]))
   \<and> (\<exists>ok. fst (delete_progress b chat_id message_id) = Inr ok)
   \<and> (send_message b chat_id text = Raises e
      \<longrightarrow> send_progress b chat_id text = (Inl e, [(DEBUG, None)]))
   \<and> (send_message b chat_id text = Returns mid
      \<longrightarrow> send_progress b chat_id text = (Inr mid, [(DEBUG, None), (INFO, None)]))"
  by (auto simp: update_progress_def delete_progress_def send_progress_def split: outcome.splits)

theorem status_message_failures_witness:
  "update_progress refusing_bot 7 42 ''50%''
     = (Inr False, [(DEBUG, None), (WARNING, Some ''Message to edit not found'')])
   \<and> delete_progress refusing_bot 7 42
     = (Inr False, [(DEBUG, None), (WARNING, Some ''Message to delete not found'')])
   \<and> send_progress refusing_bot 7 ''start'' = (Inl (OtherException ''Forbidden''), [(DEBUG, None)])
   \<and> send_progress accepting_bot 7 ''start'' = (Inr 42, [(DEBUG, None), (INFO, None)])"
  using status_message_failures [of refusing_bot 7 42 "''50%''" "OtherException ''Message to edit not found''"]
    status_message_failures [of refusing_bot 7 42 "''50%''" "OtherException ''Message to delete not found''"]
    status_message_failures [of refusing_bot 7 42 "''start''" "OtherException ''Forbidden''"]
    status_message_failures [of accepting_bot 7 42 "''start''" _ 42]
  by (simp add: refusing_bot_def accepting_bot_def)

text \<open>
  With a transport that refuses to send, \<open>send_progress\<close> returns no boolean: the
  exception reaches the caller.
\<close>

theorem send_progress_raises_counterexample:
  "send_message refusing_bot 7 ''start'' = Raises (OtherException ''Forbidden'')
   \<and> fst (send_progress refusing_bot 7 ''start'') = Inl (OtherException ''Forbidden'')"
  by (simp add: send_progress_def refusing_bot_def)

section \<open>Properties of the delivery manager\<close>

lemma fs_emit [simp]: "fs (emit e w) = fs w"
  by (simp add: emit_def)

lemma trace_emit [simp]: "trace (emit e w) = trace w @ [e]"
  by (simp add: emit_def)

lemma exists_emit [simp]: "os_path_exists (emit e w) p = os_path_exists w p"
  by (simp add: os_path_exists_def)

lemma get_file_size_fs [simp]: "fs (snd (get_file_size p w)) = fs w"
  by (simp add: get_file_size_def split: sum.splits)

lemma get_file_size_value:
  "fst (get_file_size p w) =
     (case fs w p of
        None \<Rightarrow> - 1
      | Some node \<Rightarrow> (case getsize_error node of Some e \<Rightarrow> - 1 | None \<Rightarrow> int (node_size node)))"
  by (simp add: get_file_size_def os_path_exists_def os_path_getsize_def split: option.splits)

lemma get_file_size_trace:
  "trace (snd (get_file_size p w)) =
     trace w @
     (case fs w p of
        None \<Rightarrow> []
      | Some node \<Rightarrow> (case getsize_error node of Some e \<Rightarrow> [Log ERROR (Some e)] | None \<Rightarrow> []))"
  by (simp add: get_file_size_def os_path_exists_def os_path_getsize_def split: option.splits)

lemma send_video_try_fs [simp]: "fs (snd (send_video_try b c p m w)) = fs w"
  by (simp add: send_video_try_def Let_def split: prod.splits sum.splits outcome.splits)
    (metis get_file_size_fs snd_conv)+

lemma send_video_try_value:
  "fst (send_video_try b c p m w) =
     (case fs w p of
        None \<Rightarrow> Inr (False, Some MsgFileMissing)
      | Some node \<Rightarrow>
          (case getsize_error node of
             Some e \<Rightarrow> Inr (False, Some MsgSizeUnreadable)
           | None \<Rightarrow>
               if int (node_size node) > m then
                 Inr (False, Some (MsgTooLarge (format_1f (of_nat (node_size node) / (1024 * 1024)))
                                               (format_0f (of_int m / (1024 * 1024)))))
               else
                 (case open_error node of
                    Some e \<Rightarrow> Inl (OtherException e)
                  | None \<Rightarrow>
                      (case bot_send_video b c p of
                         Raises e \<Rightarrow> Inl e
                       | Returns u \<Rightarrow> Inr (True, None)))))"
  by (simp add: send_video_try_def get_file_size_def os_path_exists_def os_path_getsize_def
      open_rb_def Let_def split: option.splits outcome.splits)

lemma send_video_try_trace:
  "[e \<leftarrow> trace (snd (send_video_try b c p m w)). e = BotSendVideo c' q] =
     [e \<leftarrow> trace w. e = BotSendVideo c' q] @
     (case fs w p of
        None \<Rightarrow> []
      | Some node \<Rightarrow>
          if getsize_error node = None \<and> int (node_size node) \<le> m \<and> open_error node = None
             \<and> c' = c \<and> q = p
          then [BotSendVideo c p] else [])"
  by (simp add: send_video_try_def get_file_size_def os_path_exists_def os_path_getsize_def
      open_rb_def Let_def split: option.splits outcome.splits)

lemma send_video_try_removes:
  "[e \<leftarrow> trace (snd (send_video_try b c p m w)). e = OsRemove q] = [e \<leftarrow> trace w. e = OsRemove q]"
  by (simp add: send_video_try_def get_file_size_def os_path_exists_def os_path_getsize_def
      open_rb_def Let_def split: option.splits outcome.splits)

lemma cleanup_file_fs:
  "fs (snd (cleanup_file p w)) =
     (case fs w p of
        None \<Rightarrow> fs w
      | Some node \<Rightarrow> (case remove_error node of None \<Rightarrow> (fs w)(p := None) | Some e \<Rightarrow> fs w))"
  by (simp add: cleanup_file_def os_path_exists_def os_remove_def Let_def split: option.splits)

lemma cleanup_file_value:
  "fst (cleanup_file p w) =
     (case fs w p of None \<Rightarrow> True | Some node \<Rightarrow> remove_error node = None)"
  by (simp add: cleanup_file_def os_path_exists_def os_remove_def Let_def split: option.splits)

lemma cleanup_file_trace:
  "trace (snd (cleanup_file p w)) =
     trace w @
     (case fs w p of
        None \<Rightarrow> [Log DEBUG None]
      | Some node \<Rightarrow>
          (case remove_error node of
             None \<Rightarrow> [OsRemove p, Log INFO None]
           | Some e \<Rightarrow> [OsRemove p, Log ERROR (Some e)]))"
  by (simp add: cleanup_file_def os_path_exists_def os_remove_def Let_def split: option.splits)

text \<open>The three phases of \<open>send_video\<close>, by name.\<close>

lemma send_video_value:
  "fst (send_video b c p m w) =
     (case fst (send_video_try b c p m w) of
        Inl e \<Rightarrow> Inr (False, Some (MsgSendError (str_of e)))
      | Inr v \<Rightarrow> Inr v)"
  by (simp add: send_video_def split: prod.splits sum.splits)

lemma send_video_world:
  "snd (send_video b c p m w) =
     snd (cleanup_file p
       (case fst (send_video_try b c p m w) of
          Inl e \<Rightarrow> emit (Log ERROR (Some (str_of e))) (snd (send_video_try b c p m w))
        | Inr v \<Rightarrow> snd (send_video_try b c p m w)))"
  by (simp add: send_video_def split: prod.splits sum.splits)

lemma send_video_fs:
  "fs (snd (send_video b c p m w)) =
     (case fs w p of
        None \<Rightarrow> fs w
      | Some node \<Rightarrow> (case remove_error node of None \<Rightarrow> (fs w)(p := None) | Some e \<Rightarrow> fs w))"
  by (simp add: send_video_world cleanup_file_fs split: sum.splits option.splits)

lemma send_video_removes:
  "[e \<leftarrow> trace (snd (send_video b c p m w)). e = OsRemove p] =
     [e \<leftarrow> trace w. e = OsRemove p] @ (if fs w p = None then [] else [OsRemove p])"
  by (simp add: send_video_world cleanup_file_trace send_video_try_removes
      split: sum.splits option.splits)

lemma send_video_sends:
  "[e \<leftarrow> trace (snd (send_video b c p m w)). e = BotSendVideo c' q] =
     [e \<leftarrow> trace w. e = BotSendVideo c' q] @
     (case fs w p of
        None \<Rightarrow> []
      | Some node \<Rightarrow>
          if getsize_error node = None \<and> int (node_size node) \<le> m \<and> open_error node = None
             \<and> c' = c \<and> q = p
          then [BotSendVideo c p] else [])"
  by (simp add: send_video_world cleanup_file_trace send_video_try_trace
      split: sum.splits option.splits)

lemma send_video_last_log:
  "fs w p = Some node \<Longrightarrow> remove_error node = Some e \<Longrightarrow>
   last (trace (snd (send_video b c p m w))) = Log ERROR (Some e)"
  by (simp add: send_video_world cleanup_file_trace split: sum.splits option.splits)

lemma send_video_returns:
  "\<exists>ok msg. fst (send_video b c p m w) = Inr (ok, msg)"
  by (cases "fst (send_video_try b c p m w)") (auto simp: send_video_value)

lemma send_video_removal_irrelevant:
  assumes "fs w p = Some node"
  shows "fst (send_video b c p m (w\<lparr>fs := (fs w)(p \<mapsto> node\<lparr>remove_error := x\<rparr>)\<rparr>))
         = fst (send_video b c p m w)"
  using assms by (simp add: send_video_value send_video_try_value split: option.splits)

text \<open>
  Claim C1. On every path through \<open>send_video\<close> (file missing, size unreadable, size
  over the ceiling, \<open>open\<close> or the transport raising, video sent) the function returns
  a pair and does not raise; \<open>cleanup_file\<close> runs, calling \<open>os.remove\<close> on the path exactly
  once when something is there; the path is absent afterwards unless that removal itself
  fails, and no other path is touched. When the removal fails the file system is left as
  it was, the last record logged is the error of the removal, and the returned pair is
  the one returned when the removal succeeds.
\<close>

theorem send_video_always_cleans_up:
  "(\<exists>ok msg. fst (send_video b c p m w) = Inr (ok, msg))
   \<and> [e \<leftarrow> trace (snd (send_video b c p m w)). e = OsRemove p]
       = [e \<leftarrow> trace w. e = OsRemove p] @ (if fs w p = None then [] else [OsRemove p])
   \<and> (fs w p = None \<or> (\<exists>node. fs w p = Some node \<and> remove_error node = None)
        \<longrightarrow> fs (snd (send_video b c p m w)) p = None)
   \<and> (q \<noteq> p \<longrightarrow> fs (snd (send_video b c p m w)) q = fs w q)
   \<and> (fs w p = Some node \<and> remove_error node = Some e
        \<longrightarrow> fs (snd (send_video b c p m w)) = fs w
            \<and> last (trace (snd (send_video b c p m w))) = Log ERROR (Some e)
            \<and> fst (send_video b c p m w)
                = fst (send_video b c p m (w\<lparr>fs := (fs w)(p \<mapsto> node\<lparr>remove_error := None\<rparr>)\<rparr>)))"
proof -
  have "fs (snd (send_video b c p m w)) p = None"
    if "fs w p = None \<or> (\<exists>node. fs w p = Some node \<and> remove_error node = None)"
    using that by (auto simp: send_video_fs)
  moreover have "fs (snd (send_video b c p m w)) q = fs w q" if "q \<noteq> p"
    using that by (simp add: send_video_fs split: option.splits)
  moreover have "fs (snd (send_video b c p m w)) = fs w"
    if "fs w p = Some node" "remove_error node = Some e"
    using that by (simp add: send_video_fs)
  ultimately show ?thesis
    using send_video_returns send_video_removes
      send_video_last_log [where w = w and p = p and node = node and e = e and b = b and c = c and m = m]
      send_video_removal_irrelevant [where w = w and p = p and node = node and b = b and c = c and m = m and x = None]
    by simp
qed

theorem send_video_always_cleans_up_witness:
  "fs (one_file ''/tmp/a.mp4'' (plain_file 1000)) ''/tmp/a.mp4'' = Some (plain_file 1000)
   \<and> remove_error (plain_file 1000) = None
   \<and> fs (snd (send_video accepting_bot 7 ''/tmp/a.mp4'' DEFAULT_MAX_FILE_SIZE
                (one_file ''/tmp/a.mp4'' (plain_file 1000)))) ''/tmp/a.mp4'' = None
   \<and> ''/tmp/b.mp4'' \<noteq> ''/tmp/a.mp4''
   \<and> fs (snd (send_video accepting_bot 7 ''/tmp/a.mp4'' DEFAULT_MAX_FILE_SIZE
                (one_file ''/tmp/a.mp4'' (plain_file 1000)))) ''/tmp/b.mp4''
       = fs (one_file ''/tmp/a.mp4'' (plain_file 1000)) ''/tmp/b.mp4''
   \<and> fs (one_file ''/tmp/a.mp4'' (locked_file 1000)) ''/tmp/a.mp4'' = Some (locked_file 1000)
   \<and> remove_error (locked_file 1000) = Some ''Permission denied''
   \<and> fs (snd (send_video refusing_bot 7 ''/tmp/a.mp4'' DEFAULT_MAX_FILE_SIZE
                (one_file ''/tmp/a.mp4'' (locked_file 1000))))
       = fs (one_file ''/tmp/a.mp4'' (locked_file 1000))
   \<and> last (trace (snd (send_video refusing_bot 7 ''/tmp/a.mp4'' DEFAULT_MAX_FILE_SIZE
                (one_file ''/tmp/a.mp4'' (locked_file 1000)))))
       = Log ERROR (Some ''Permission denied'')"
  using send_video_always_cleans_up
      [where b = accepting_bot and c = 7 and p = "''/tmp/a.mp4''" and m = DEFAULT_MAX_FILE_SIZE
         and w = "one_file ''/tmp/a.mp4'' (plain_file 1000)" and q = "''/tmp/b.mp4''"
         and node = "plain_file 1000" and e = "''x''"]
    send_video_always_cleans_up
      [where b = refusing_bot and c = 7 and p = "''/tmp/a.mp4''" and m = DEFAULT_MAX_FILE_SIZE
         and w = "one_file ''/tmp/a.mp4'' (locked_file 1000)" and q = "''/tmp/b.mp4''"
         and node = "locked_file 1000" and e = "''Permission denied''"]
  by (simp add: one_file_def plain_file_def locked_file_def)

lemma round_half_even_bound: "\<bar>of_int (round_half_even x) - x\<bar> \<le> 1 / 2"
proof -
  have "of_int \<lfloor>x\<rfloor> \<le> x" "x < of_int \<lfloor>x\<rfloor> + 1"
    by linarith+
  then show ?thesis
    by (auto simp: round_half_even_def Let_def)
qed

lemma round_half_even_nonneg: "0 \<le> x \<Longrightarrow> 0 \<le> round_half_even x"
  by (auto simp: round_half_even_def Let_def intro: add_nonneg_nonneg)

lemma digit_value_digit_char: "d < 10 \<Longrightarrow> digit_value (digit_char d) = d"
  by (simp add: digit_value_def digit_char_def)

lemma read_nat_snoc: "read_nat (s @ [ch]) = 10 * read_nat s + digit_value ch"
  by (simp add: read_nat_def)

lemma read_nat_show_nat: "read_nat (show_nat n) = n"
proof (induction n rule: show_nat.induct)
  case (1 n)
  show ?case
  proof (cases "n < 10")
    case True
    then show ?thesis
      by (simp add: show_nat.simps [of n] read_nat_def digit_value_digit_char)
  next
    case False
    with 1 show ?thesis
      by (simp add: show_nat.simps [of n] read_nat_snoc digit_value_digit_char)
  qed
qed

lemma is_file_size_valid_value:
  "fst (is_file_size_valid p m w) =
     (case fs w p of
        None \<Rightarrow> False
      | Some node \<Rightarrow>
          (case getsize_error node of Some e \<Rightarrow> False | None \<Rightarrow> int (node_size node) \<le> m))"
  by (simp add: is_file_size_valid_def get_file_size_def os_path_exists_def os_path_getsize_def
      split: option.splits prod.splits)

lemma format_1f_nonneg:
  assumes "0 \<le> x"
  shows "format_1f x =
           show_nat (nat (round_half_even (x * 10)) div 10) @ ''.'' @
           [digit_char (nat (round_half_even (x * 10)) mod 10)]"
  using assms by (simp add: format_1f_def Let_def)

lemma format_0f_nonneg:
  assumes "0 \<le> x"
  shows "format_0f x = show_nat (nat (round_half_even x))"
  using assms by (simp add: format_0f_def Let_def)

lemma tenths_bound:
  fixes x :: rat
  assumes "0 \<le> x"
  shows "\<bar>of_nat (nat (round_half_even (x * 10))) / 10 - x\<bar> \<le> 1 / 20"
proof -
  have "0 \<le> round_half_even (x * 10)"
    using assms by (simp add: round_half_even_nonneg)
  then have "(of_nat (nat (round_half_even (x * 10))) :: rat) = of_int (round_half_even (x * 10))"
    by simp
  moreover have "\<bar>of_int (round_half_even (x * 10)) - x * 10\<bar> \<le> 1 / 2"
    by (rule round_half_even_bound)
  ultimately show ?thesis
    by (simp add: abs_le_iff field_simps)
qed

lemma units_bound:
  fixes x :: rat
  assumes "0 \<le> x"
  shows "\<bar>of_nat (nat (round_half_even x)) - x\<bar> \<le> 1 / 2"
proof -
  have "0 \<le> round_half_even x"
    using assms by (simp add: round_half_even_nonneg)
  then have "(of_nat (nat (round_half_even x)) :: rat) = of_int (round_half_even x)"
    by simp
  then show ?thesis
    using round_half_even_bound [of x] by simp
qed

text \<open>
  Claim C2. For a file of size \<open>f\<close> and a ceiling \<open>m\<close> the size check accepts exactly when
  \<open>f \<le> m\<close>: \<open>f = m\<close> is accepted, \<open>f = m + 1\<close> is not, and a file accepted under a ceiling
  is accepted under every greater one. When the file exists and its size exceeds the
  ceiling, \<open>send_video\<close> returns failure with the too-large text, which carries the size
  in megabytes with one decimal digit (at most a twentieth of a megabyte from the true
  quotient) and the ceiling in megabytes as an integer numeral (at most a half from the
  true quotient), and no video is handed to the transport. A printed numeral reads back
  as the number printed.
\<close>

theorem size_gate:
  "(fs w p = Some node \<and> getsize_error node = None
      \<longrightarrow> fst (is_file_size_valid p m w) = (int (node_size node) \<le> m))
   \<and> (fs w p = Some node \<and> getsize_error node = None \<and> int (node_size node) = m
      \<longrightarrow> fst (is_file_size_valid p m w))
   \<and> (fs w p = Some node \<and> getsize_error node = None \<and> int (node_size node) = m + 1
      \<longrightarrow> \<not> fst (is_file_size_valid p m w))
   \<and> (fst (is_file_size_valid p m1 w) \<and> m1 \<le> m2 \<longrightarrow> fst (is_file_size_valid p m2 w))
   \<and> (fs w p = Some node \<and> getsize_error node = None \<and> m < int (node_size node)
      \<longrightarrow> fst (send_video b c p m w)
            = Inr (False, Some (MsgTooLarge (format_1f (of_nat (node_size node) / (1024 * 1024)))
                                            (format_0f (of_int m / (1024 * 1024)))))
          \<and> [e \<leftarrow> trace (snd (send_video b c p m w)). e = BotSendVideo c' q]
            = [e \<leftarrow> trace w. e = BotSendVideo c' q]
          \<and> format_1f (of_nat (node_size node) / (1024 * 1024))
            = show_nat (nat (round_half_even (of_nat (node_size node) / (1024 * 1024) * 10)) div 10)
              @ ''.'' @
              [digit_char (nat (round_half_even (of_nat (node_size node) / (1024 * 1024) * 10)) mod 10)]
          \<and> \<bar>of_nat (nat (round_half_even (of_nat (node_size node) / (1024 * 1024) * 10))) / 10
               - (of_nat (node_size node) / (1024 * 1024) :: rat)\<bar> \<le> 1 / 20
          \<and> (0 \<le> m \<longrightarrow>
                format_0f (of_int m / (1024 * 1024))
                  = show_nat (nat (round_half_even (of_int m / (1024 * 1024))))
              \<and> \<bar>of_nat (nat (round_half_even (of_int m / (1024 * 1024))))
                   - (of_int m / (1024 * 1024) :: rat)\<bar> \<le> 1 / 2))
   \<and> read_nat (show_nat k) = k"
proof -
  have a: "(0::rat) \<le> of_nat (node_size node) / (1024 * 1024)"
    by simp
  have b: "(0::rat) \<le> of_int m / (1024 * 1024)" if "0 \<le> m"
    using that by simp
  have "fst (is_file_size_valid p m2 w)" if "fst (is_file_size_valid p m1 w)" "m1 \<le> m2"
    using that by (auto simp: is_file_size_valid_value split: option.splits)
  moreover have "fst (send_video b c p m w)
      = Inr (False, Some (MsgTooLarge (format_1f (of_nat (node_size node) / (1024 * 1024)))
                                      (format_0f (of_int m / (1024 * 1024)))))"
    if "fs w p = Some node" "getsize_error node = None" "m < int (node_size node)"
    using that by (simp add: send_video_value send_video_try_value)
  moreover have "[e \<leftarrow> trace (snd (send_video b c p m w)). e = BotSendVideo c' q]
            = [e \<leftarrow> trace w. e = BotSendVideo c' q]"
    if "fs w p = Some node" "getsize_error node = None" "m < int (node_size node)"
    using that by (simp add: send_video_sends)
  ultimately show ?thesis
    using format_1f_nonneg [OF a] tenths_bound [OF a] format_0f_nonneg [OF b] units_bound [OF b]
    by (simp add: is_file_size_valid_value read_nat_show_nat)
qed

theorem size_gate_witness:
  "fs (one_file ''/tmp/a.mp4'' (plain_file 62914560)) ''/tmp/a.mp4'' = Some (plain_file 62914560)
   \<and> getsize_error (plain_file 62914560) = None
   \<and> DEFAULT_MAX_FILE_SIZE < int (node_size (plain_file 62914560))
   \<and> \<not> fst (is_file_size_valid ''/tmp/a.mp4'' DEFAULT_MAX_FILE_SIZE
               (one_file ''/tmp/a.mp4'' (plain_file 62914560)))
   \<and> fst (is_file_size_valid ''/tmp/a.mp4'' 62914560 (one_file ''/tmp/a.mp4'' (plain_file 62914560)))
   \<and> \<not> fst (is_file_size_valid ''/tmp/a.mp4'' 62914559 (one_file ''/tmp/a.mp4'' (plain_file 62914560)))
   \<and> fst (is_file_size_valid ''/tmp/a.mp4'' 62914561 (one_file ''/tmp/a.mp4'' (plain_file 62914560)))
   \<and> fst (send_video accepting_bot 7 ''/tmp/a.mp4'' DEFAULT_MAX_FILE_SIZE
            (one_file ''/tmp/a.mp4'' (plain_file 62914560)))
       = Inr (False, Some (MsgTooLarge ''60.0'' ''50''))
   \<and> [e \<leftarrow> trace (snd (send_video accepting_bot 7 ''/tmp/a.mp4'' DEFAULT_MAX_FILE_SIZE
                          (one_file ''/tmp/a.mp4'' (plain_file 62914560)))).
         e = BotSendVideo 7 ''/tmp/a.mp4''] = []"
proof -
  have f1: "format_1f (62914560 / (1024 * 1024)) = ''60.0''"
    by code_simp
  have f0: "format_0f (52428800 / (1024 * 1024)) = ''50''"
    by code_simp
  show ?thesis
    using f1 f0
      size_gate [where w = "one_file ''/tmp/a.mp4'' (plain_file 62914560)" and p = "''/tmp/a.mp4''"
        and node = "plain_file 62914560" and m = DEFAULT_MAX_FILE_SIZE and b = accepting_bot
        and c = 7 and c' = 7 and q = "''/tmp/a.mp4''" and ?m1.0 = 62914560 and ?m2.0 = 62914561
        and k = 0]
      size_gate [where w = "one_file ''/tmp/a.mp4'' (plain_file 62914560)" and p = "''/tmp/a.mp4''"
        and node = "plain_file 62914560" and m = 62914560 and b = accepting_bot
        and c = 7 and c' = 7 and q = "''/tmp/a.mp4''" and ?m1.0 = 62914560 and ?m2.0 = 62914561
        and k = 0]
      size_gate [where w = "one_file ''/tmp/a.mp4'' (plain_file 62914560)" and p = "''/tmp/a.mp4''"
        and node = "plain_file 62914560" and m = 62914559 and b = accepting_bot
        and c = 7 and c' = 7 and q = "''/tmp/a.mp4''" and ?m1.0 = 62914560 and ?m2.0 = 62914561
        and k = 0]
    by (simp add: one_file_def plain_file_def DEFAULT_MAX_FILE_SIZE_def)
qed

section \<open>Properties of the download orchestrator\<close>

lemma probe_extensions_found:
  assumes "probe_extensions w base exts = Some (Inr r)"
  shows "success r \<and> error_message r = None \<and> 0 \<le> file_size r
         \<and> (\<exists>path node. file_path r = Some path \<and> fs w path = Some node
               \<and> file_size r = int (node_size node))"
  using assms
proof (induction exts)
  case Nil
  then show ?case by simp
next
  case (Cons ext exts)
  show ?case
  proof (cases "os_path_exists w (base @ ext)")
    case True
    with Cons.prems show ?thesis
      by (auto simp: os_path_getsize_def os_path_exists_def split: option.splits)
  next
    case False
    with Cons show ?thesis by simp
  qed
qed

lemma download_video_try_found:
  assumes "download_video_try ydl opts url out w = (Inr r, w1)"
  shows "(success r \<longrightarrow> error_message r = None \<and> 0 \<le> file_size r
            \<and> (\<exists>path node. file_path r = Some path \<and> fs w1 path = Some node
                  \<and> file_size r = int (node_size node)))
         \<and> (\<not> success r \<longrightarrow> file_path r = None \<and> file_size r = 0 \<and> error_message r \<noteq> None)"
proof -
  obtain x w2 where y: "ydl opts url w = (x, w2)"
    by (cases "ydl opts url w")
  show ?thesis
  proof (cases x)
    case (Some e)
    with y assms show ?thesis by (simp add: download_video_try_def)
  next
    case None
    show ?thesis
    proof (cases "os_path_exists w2 out")
      case True
      with None y assms show ?thesis
        by (auto simp: download_video_try_def os_path_getsize_def os_path_exists_def
            split: option.splits)
    next
      case False
      show ?thesis
      proof (cases "probe_extensions w2 (rsplit_dot_head out) [''.mp4'', ''.mkv'', ''.webm'', ''.m4a'']")
        case None': None
        with None False y assms show ?thesis
          by (auto simp: download_video_try_def)
      next
        case (Some pr)
        with None False y assms have "pr = Inr r" "w1 = w2"
          by (auto simp: download_video_try_def)
        with Some
        have "probe_extensions w2 (rsplit_dot_head out) [''.mp4'', ''.mkv'', ''.webm'', ''.m4a'']
              = Some (Inr r)"
          by (simp only:)
        from probe_extensions_found [OF this] \<open>w1 = w2\<close> show ?thesis
          by auto
      qed
    qed
  qed
qed

lemma download_video_split:
  "download_video ydl u url dir m cb w =
     (case download_video_try ydl (get_yt_dlp_options (os_path_join dir (u @ ''.mp4'')) m cb) url
             (os_path_join dir (u @ ''.mp4'')) w of
        (Inr r, w1) \<Rightarrow> (Inr r, w1)
      | (Inl e, w1) \<Rightarrow>
          (Inr \<lparr>success = False, file_path = None, error_message = Some (MsgText (str_of e)),
                file_size = 0\<rparr>, w1))"
  by (simp add: download_video_def Let_def split: prod.splits sum.splits py_exception.splits)

lemma download_video_returns:
  "\<exists>r. fst (download_video ydl u url dir m cb w) = Inr r"
  by (simp add: download_video_split split: prod.splits sum.splits)

lemma download_video_invariant:
  assumes "fst (download_video ydl u url dir m cb w) = Inr r"
  shows "(success r \<longrightarrow> error_message r = None \<and> 0 \<le> file_size r
            \<and> (\<exists>path node. file_path r = Some path
                  \<and> fs (snd (download_video ydl u url dir m cb w)) path = Some node
                  \<and> file_size r = int (node_size node)))
         \<and> (\<not> success r \<longrightarrow> file_path r = None \<and> file_size r = 0 \<and> error_message r \<noteq> None)"
proof -
  obtain x w1 where t:
    "download_video_try ydl (get_yt_dlp_options (os_path_join dir (u @ ''.mp4'')) m cb) url
       (os_path_join dir (u @ ''.mp4'')) w = (x, w1)"
    by (cases "download_video_try ydl (get_yt_dlp_options (os_path_join dir (u @ ''.mp4'')) m cb) url
       (os_path_join dir (u @ ''.mp4'')) w")
  show ?thesis
  proof (cases x)
    case (Inl e)
    with t assms show ?thesis
      by (auto simp: download_video_split)
  next
    case (Inr r')
    with t assms have "r' = r" "snd (download_video ydl u url dir m cb w) = w1"
      by (auto simp: download_video_split)
    with Inr t download_video_try_found [of ydl _ url _ w r w1] show ?thesis
      by simp
  qed
qed

lemma download_video_engine_raises:
  assumes "fst (ydl (get_yt_dlp_options (os_path_join dir (u @ ''.mp4'')) m cb) url w) = Some e"
  shows "fst (download_video ydl u url dir m cb w)
         = Inr \<lparr>success = False, file_path = None, error_message = Some (MsgText (str_of e)),
                file_size = 0\<rparr>"
  using assms
  by (cases "ydl (get_yt_dlp_options (os_path_join dir (u @ ''.mp4'')) m cb) url w")
    (simp add: download_video_split download_video_try_def)

text \<open>
  Claim C3, as amended. \<open>download_video\<close> always returns a result. A successful result
  has a file path, no error description and a size that is not negative: it is the size
  on disk of the file at that path, which is zero when the engine wrote an empty file. A
  failed result has no file path, size zero and an error description.
\<close>

theorem download_result_invariant:
  "(\<exists>r'. fst (download_video ydl u url dir m cb w) = Inr r')
   \<and> (fst (download_video ydl u url dir m cb w) = Inr r \<and> success r
        \<longrightarrow> file_path r \<noteq> None \<and> 0 \<le> file_size r \<and> error_message r = None
            \<and> (\<exists>path node. file_path r = Some path
                  \<and> fs (snd (download_video ydl u url dir m cb w)) path = Some node
                  \<and> file_size r = int (node_size node)))
   \<and> (fst (download_video ydl u url dir m cb w) = Inr r \<and> \<not> success r
        \<longrightarrow> file_path r = None \<and> file_size r = 0 \<and> error_message r \<noteq> None)"
  using download_video_returns [of ydl u url dir m cb w]
    download_video_invariant [of ydl u url dir m cb w r]
  by auto

lemma outtmpl_get_yt_dlp_options: "outtmpl (get_yt_dlp_options p m cb) = p"
  by (simp add: get_yt_dlp_options_def Let_def)

lemma writing_engine_result:
  "download_video (writing_engine n) u url dir m cb w
   = (Inr \<lparr>success = True, file_path = Some (os_path_join dir (u @ ''.mp4'')),
            error_message = None, file_size = int n\<rparr>,
      w\<lparr>fs := (fs w)(os_path_join dir (u @ ''.mp4'') \<mapsto> plain_file n)\<rparr>)"
  by (simp add: download_video_split download_video_try_def writing_engine_def
      outtmpl_get_yt_dlp_options os_path_exists_def os_path_getsize_def plain_file_def)

lemma probe_extensions_empty_world: "probe_extensions empty_world base exts = None"
  by (induction exts) (simp_all add: os_path_exists_def empty_world_def)

lemma idle_engine_result:
  "fst (download_video idle_engine u url dir m cb empty_world)
   = Inr \<lparr>success = False, file_path = None, error_message = Some MsgFileNotCreated,
          file_size = 0\<rparr>"
proof -
  have "\<not> os_path_exists empty_world p" for p
    by (simp add: os_path_exists_def empty_world_def)
  then show ?thesis
    by (simp add: download_video_split download_video_try_def idle_engine_def
        probe_extensions_empty_world del: probe_extensions.simps)
qed

lemma tmp_path:
  "os_path_join ''/tmp'' (''123e4567-e89b-12d3-a456-426614174000'' @ ''.mp4'')
   = ''/tmp/123e4567-e89b-12d3-a456-426614174000.mp4''"
  by (simp add: os_path_join_def)

theorem download_result_invariant_witness:
  "fst (download_video (writing_engine 1000) ''123e4567-e89b-12d3-a456-426614174000''
          ''https://youtu.be/abc'' ''/tmp'' DEFAULT_MAX_FILE_SIZE (None :: unit option) empty_world)
   = Inr \<lparr>success = True, file_path = Some ''/tmp/123e4567-e89b-12d3-a456-426614174000.mp4'',
          error_message = None, file_size = 1000\<rparr>
   \<and> (\<exists>node. fs (snd (download_video (writing_engine 1000) ''123e4567-e89b-12d3-a456-426614174000''
          ''https://youtu.be/abc'' ''/tmp'' DEFAULT_MAX_FILE_SIZE (None :: unit option) empty_world))
          ''/tmp/123e4567-e89b-12d3-a456-426614174000.mp4'' = Some node
        \<and> int (node_size node) = 1000)
   \<and> fst (download_video idle_engine ''123e4567-e89b-12d3-a456-426614174000''
          ''https://youtu.be/abc'' ''/tmp'' DEFAULT_MAX_FILE_SIZE (None :: unit option) empty_world)
   = Inr \<lparr>success = False, file_path = None, error_message = Some MsgFileNotCreated,
          file_size = 0\<rparr>"
  using writing_engine_result [of 1000 "''123e4567-e89b-12d3-a456-426614174000''"
      "''https://youtu.be/abc''" "''/tmp''" DEFAULT_MAX_FILE_SIZE "None :: unit option" empty_world]
    idle_engine_result [of "''123e4567-e89b-12d3-a456-426614174000''"
      "''https://youtu.be/abc''" "''/tmp''" DEFAULT_MAX_FILE_SIZE "None :: unit option"]
    download_result_invariant [of "writing_engine 1000" "''123e4567-e89b-12d3-a456-426614174000''"
      "''https://youtu.be/abc''" "''/tmp''" DEFAULT_MAX_FILE_SIZE "None :: unit option" empty_world
      "\<lparr>success = True, file_path = Some ''/tmp/123e4567-e89b-12d3-a456-426614174000.mp4'',
          error_message = None, file_size = 1000\<rparr>"]
    download_result_invariant [of idle_engine "''123e4567-e89b-12d3-a456-426614174000''"
      "''https://youtu.be/abc''" "''/tmp''" DEFAULT_MAX_FILE_SIZE "None :: unit option" empty_world
      "\<lparr>success = False, file_path = None, error_message = Some MsgFileNotCreated,
          file_size = 0\<rparr>"]
  unfolding tmp_path by (simp add: plain_file_def)

text \<open>
  An engine that writes an empty file at the output path and returns: the result is a
  success whose size is zero, not greater than zero.
\<close>

theorem empty_file_success_counterexample:
  "fst (download_video (writing_engine 0) ''123e4567-e89b-12d3-a456-426614174000''
          ''https://youtu.be/abc'' ''/tmp'' DEFAULT_MAX_FILE_SIZE (None :: unit option) empty_world)
   = Inr \<lparr>success = True, file_path = Some ''/tmp/123e4567-e89b-12d3-a456-426614174000.mp4'',
          error_message = None, file_size = 0\<rparr>"
  using writing_engine_result [of 0 "''123e4567-e89b-12d3-a456-426614174000''"
      "''https://youtu.be/abc''" "''/tmp''" DEFAULT_MAX_FILE_SIZE "None :: unit option" empty_world]
  unfolding tmp_path by simp

text \<open>
  Claim C4. \<open>download_video\<close> never raises: it always returns a result. When the engine
  raises, with the download error of the engine or with any other exception, the result
  is the failure whose error description is the text of that exception.
\<close>

theorem download_video_never_raises:
  "(\<exists>r. fst (download_video ydl u url dir m cb w) = Inr r)
   \<and> (fst (ydl (get_yt_dlp_options (os_path_join dir (u @ ''.mp4'')) m cb) url w) = Some e
        \<longrightarrow> fst (download_video ydl u url dir m cb w)
            = Inr \<lparr>success = False, file_path = None, error_message = Some (MsgText (str_of e)),
                   file_size = 0\<rparr>)"
  using download_video_returns [of ydl u url dir m cb w]
    download_video_engine_raises [of ydl dir u m cb url w e]
  by blast

theorem download_video_never_raises_witness:
  "fst (raising_engine (YtDlpDownloadError ''ERROR: Video unavailable'')
          (get_yt_dlp_options (os_path_join ''/tmp'' (''123e4567-e89b-12d3-a456-426614174000'' @ ''.mp4''))
             DEFAULT_MAX_FILE_SIZE (Some ()))
          ''https://youtu.be/abc'' empty_world)
     = Some (YtDlpDownloadError ''ERROR: Video unavailable'')
   \<and> fst (download_video (raising_engine (YtDlpDownloadError ''ERROR: Video unavailable''))
            ''123e4567-e89b-12d3-a456-426614174000'' ''https://youtu.be/abc'' ''/tmp''
            DEFAULT_MAX_FILE_SIZE (Some ()) empty_world)
     = Inr \<lparr>success = False, file_path = None,
            error_message = Some (MsgText ''ERROR: Video unavailable''), file_size = 0\<rparr>
   \<and> fst (raising_engine (OtherException ''Unknown error'')
          (get_yt_dlp_options (os_path_join ''/tmp'' (''123e4567-e89b-12d3-a456-426614174000'' @ ''.mp4''))
             DEFAULT_MAX_FILE_SIZE (Some ()))
          ''https://youtu.be/abc'' empty_world)
     = Some (OtherException ''Unknown error'')
   \<and> fst (download_video (raising_engine (OtherException ''Unknown error''))
            ''123e4567-e89b-12d3-a456-426614174000'' ''https://youtu.be/abc'' ''/tmp''
            DEFAULT_MAX_FILE_SIZE (Some ()) empty_world)
     = Inr \<lparr>success = False, file_path = None,
            error_message = Some (MsgText ''Unknown error''), file_size = 0\<rparr>"
  using download_video_never_raises
      [of "raising_engine (YtDlpDownloadError ''ERROR: Video unavailable'')"
        "''123e4567-e89b-12d3-a456-426614174000''" "''https://youtu.be/abc''" "''/tmp''"
        DEFAULT_MAX_FILE_SIZE "Some ()" empty_world "YtDlpDownloadError ''ERROR: Video unavailable''"]
    download_video_never_raises
      [of "raising_engine (OtherException ''Unknown error'')"
        "''123e4567-e89b-12d3-a456-426614174000''" "''https://youtu.be/abc''" "''/tmp''"
        DEFAULT_MAX_FILE_SIZE "Some ()" empty_world "OtherException ''Unknown error''"]
  by (simp add: raising_engine_def)

section \<open>Properties of the progress hook\<close>












section \<open>Properties of the URL recognizer\<close>





















end
